theory Spec2Isabelle
  imports Main "HOL-Library.Char_ord" "HOL-Library.List_Lexorder" "HOL-Library.Multiset"
begin

section \<open>Python values\<close>

text \<open>
  The handlers of \<^verbatim>\<open>application.py\<close> work on parsed JSON. A Python \<^verbatim>\<open>str\<close> is
  modelled as a \<^typ>\<open>string\<close>, one \<^typ>\<open>char\<close> per character of the Python string
  (so slicing and \<^verbatim>\<open>len\<close> count what Python counts); the model therefore covers the
  strings over the first 256 code points. A Python \<^verbatim>\<open>int\<close> is an \<^typ>\<open>int\<close>. A
  Python \<^verbatim>\<open>float\<close> is carried by the text that \<^verbatim>\<open>repr\<close> prints for it, since the
  handlers only ever test it for zero and print it. The list of a \<open>JObj\<close> holds the
  items of the parsed \<^verbatim>\<open>dict\<close> in insertion order.
\<close>

datatype json =
    JNull
  | JBool bool
  | JInt int
  | JFloat string
  | JStr string
  | JArr "json list"
  | JObj "(string \<times> json) list"

text \<open>Truth value of a Python object, as \<^verbatim>\<open>x or {}\<close> tests it.\<close>

fun truthy :: "json \<Rightarrow> bool" where
  "truthy JNull = False"
| "truthy (JBool b) = b"
| "truthy (JInt i) = (i \<noteq> 0)"
| "truthy (JFloat r) = (r \<noteq> ''0.0'' \<and> r \<noteq> ''-0.0'')"
| "truthy (JStr s) = (s \<noteq> [])"
| "truthy (JArr xs) = (xs \<noteq> [])"
| "truthy (JObj kvs) = (kvs \<noteq> [])"

subsection \<open>\<^verbatim>\<open>str\<close> and \<^verbatim>\<open>repr\<close>\<close>

definition digit_char :: "nat \<Rightarrow> char" where
  "digit_char d = char_of (48 + d)"

fun dec_nat :: "nat \<Rightarrow> string" where
  "dec_nat n = (if n < 10 then [digit_char n] else dec_nat (n div 10) @ [digit_char (n mod 10)])"

declare dec_nat.simps [simp del]

definition dec_int :: "int \<Rightarrow> string" where
  "dec_int i = (if i < 0 then CHR ''-'' # dec_nat (nat (- i)) else dec_nat (nat i))"

definition hex_char :: "nat \<Rightarrow> char" where
  "hex_char d = (if d < 10 then char_of (48 + d) else char_of (87 + d))"

definition printable :: "char \<Rightarrow> bool" where
  "printable c = (let n = (of_char c :: nat) in (32 \<le> n \<and> n < 127) \<or> (161 \<le> n \<and> n \<noteq> 173))"

text \<open>
  \<^verbatim>\<open>repr\<close> of a string: single quotes, unless the string holds a single quote and no
  double quote; the quote and the backslash are escaped, tab, newline and carriage return
  have their letter, any other unprintable character is written \<^verbatim>\<open>\xhh\<close>.
\<close>

definition repr_quote :: "string \<Rightarrow> char" where
  "repr_quote s = (if CHR 0x27 \<in> set s \<and> CHR 0x22 \<notin> set s then CHR 0x22 else CHR 0x27)"

definition repr_char :: "char \<Rightarrow> char \<Rightarrow> string" where
  "repr_char q c =
     (if c = q \<or> c = CHR 0x5C then [CHR 0x5C, c]
      else if c = CHR 0x09 then [CHR 0x5C, CHR ''t'']
      else if c = CHR 0x0A then [CHR 0x5C, CHR ''n'']
      else if c = CHR 0x0D then [CHR 0x5C, CHR ''r'']
      else if printable c then [c]
      else [CHR 0x5C, CHR ''x'', hex_char (of_char c div 16), hex_char (of_char c mod 16)])"

definition repr_str :: "string \<Rightarrow> string" where
  "repr_str s = (let q = repr_quote s in q # concat (map (repr_char q) s) @ [q])"

fun join :: "string \<Rightarrow> string list \<Rightarrow> string" where
  "join sep [] = []"
| "join sep [x] = x"
| "join sep (x # y # ys) = x @ sep @ join sep (y # ys)"

fun py_repr :: "json \<Rightarrow> string" where
  "py_repr JNull = ''None''"
| "py_repr (JBool b) = (if b then ''True'' else ''False'')"
| "py_repr (JInt i) = dec_int i"
| "py_repr (JFloat r) = r"
| "py_repr (JStr s) = repr_str s"
| "py_repr (JArr xs) = ''['' @ join '', '' (map py_repr xs) @ '']''"
| "py_repr (JObj kvs) =
     ''{'' @ join '', '' (map (\<lambda>kv. repr_str (fst kv) @ '': '' @ py_repr (snd kv)) kvs) @ ''}''"

text \<open>\<^verbatim>\<open>str(x)\<close>: a string is itself, every other value prints as its \<^verbatim>\<open>repr\<close>.\<close>

fun py_str :: "json \<Rightarrow> string" where
  "py_str (JStr s) = s"
| "py_str v = py_repr v"

subsection \<open>\<^verbatim>\<open>int(s)\<close> on a string\<close>

text \<open>
  \<^verbatim>\<open>int\<close> strips white space on both sides, then reads an optional sign and decimal
  digits, where single underscores may stand between digits. Anything else raises
  \<^verbatim>\<open>ValueError\<close>, here \<open>None\<close>. The integers are unbounded: a bound of the
  interpreter on the number of digits it converts is not modelled.
\<close>

definition is_space :: "char \<Rightarrow> bool" where
  "is_space c = (let n = (of_char c :: nat) in
     (9 \<le> n \<and> n \<le> 13) \<or> (28 \<le> n \<and> n \<le> 32) \<or> n = 133 \<or> n = 160)"

definition is_digit :: "char \<Rightarrow> bool" where
  "is_digit c = (let n = (of_char c :: nat) in 48 \<le> n \<and> n \<le> 57)"

definition digit_val :: "char \<Rightarrow> nat" where
  "digit_val c = of_char c - 48"

definition strip :: "string \<Rightarrow> string" where
  "strip s = rev (dropWhile is_space (rev (dropWhile is_space s)))"

fun int_digits :: "nat \<Rightarrow> string \<Rightarrow> nat option" where
  "int_digits acc [] = None"
| "int_digits acc [c] = (if is_digit c then Some (10 * acc + digit_val c) else None)"
| "int_digits acc (c # d # ds) =
     (if \<not> is_digit c then None
      else if d = CHR ''_'' then int_digits (10 * acc + digit_val c) ds
      else int_digits (10 * acc + digit_val c) (d # ds))"

definition py_int :: "string \<Rightarrow> int option" where
  "py_int s =
     (case strip s of
        [] \<Rightarrow> None
      | c # cs \<Rightarrow>
          if c = CHR ''-'' then map_option (\<lambda>n. - int n) (int_digits 0 cs)
          else if c = CHR ''+'' then map_option int (int_digits 0 cs)
          else map_option int (int_digits 0 (c # cs)))"

section \<open>Exceptions and responses\<close>

text \<open>
  A handler returns a body with a status, or raises. \<^verbatim>\<open>abort(code, description)\<close> raises
  an \<open>HTTPException\<close>; a \<open>ClientError\<close> carries the backend's \<^verbatim>\<open>Error.Code\<close> and
  \<^verbatim>\<open>Error.Message\<close>. The handlers catch \<open>ClientError\<close> only, every other exception
  leaves the handler.
\<close>

record client_error =
  Code :: string
  Message :: string

datatype exn =
    ClientError client_error
  | HTTPException nat string
  | ValueError
  | AttributeError
  | ParamValidationError

datatype body = Json json | Plain string

type_synonym response = "body \<times> nat"

section \<open>The table\<close>

record message =
  room_id :: string
  msg_id :: string
  ts :: int
  user :: string
  "text" :: string

type_synonym table = "message list"

text \<open>
  Modelled from the spec: the storage collaborator behind \<^verbatim>\<open>table\<close> (a DynamoDB table
  reached through boto3), which is not code of the repository. Its contract is
  \<^verbatim>\<open>query(partition_key, ascending, limit)\<close>, a range scan within a partition, and
  \<^verbatim>\<open>put\<close> and \<^verbatim>\<open>delete\<close> with a condition on the key, each giving success, condition
  failed or another error. The table is keyed by \<open>room_id\<close> (partition) and \<open>msg_id\<close>
  (sort key). A failure that does not depend on the contents of the table (throttling,
  a refused request) is an input of each call: \<open>fault\<close>, the error the backend reports.
  A failed condition is reported as a \<open>ClientError\<close> with the code
  \<^verbatim>\<open>ConditionalCheckFailedException\<close>. The client refuses a \<^verbatim>\<open>Limit\<close> below 1 before
  any request is sent, with an exception that is not a \<open>ClientError\<close>. The backend's own
  bound on the size of one page of results is not modelled.
\<close>

definition has_key :: "table \<Rightarrow> string \<Rightarrow> string \<Rightarrow> bool" where
  "has_key tbl r i = list_ex (\<lambda>m. room_id m = r \<and> msg_id m = i) tbl"

definition condition_failed :: client_error where
  "condition_failed =
     \<lparr>Code = ''ConditionalCheckFailedException'', Message = ''The conditional request failed''\<rparr>"

definition query :: "table \<Rightarrow> client_error option \<Rightarrow> string \<Rightarrow> int \<Rightarrow> exn + message list" where
  "query tbl fault r lim =
     (if lim < 1 then Inl ParamValidationError
      else case fault of
        Some e \<Rightarrow> Inl (ClientError e)
      | None \<Rightarrow> Inr (take (nat lim) (sort_key msg_id (filter (\<lambda>m. room_id m = r) tbl))))"

definition put_item :: "table \<Rightarrow> client_error option \<Rightarrow> message \<Rightarrow> exn + table" where
  "put_item tbl fault item =
     (case fault of
        Some e \<Rightarrow> Inl (ClientError e)
      | None \<Rightarrow>
          if has_key tbl (room_id item) (msg_id item) then Inl (ClientError condition_failed)
          else Inr (tbl @ [item]))"

definition delete_item :: "table \<Rightarrow> client_error option \<Rightarrow> string \<Rightarrow> string \<Rightarrow> exn + table" where
  "delete_item tbl fault r i =
     (case fault of
        Some e \<Rightarrow> Inl (ClientError e)
      | None \<Rightarrow>
          if has_key tbl r i then Inr (filter (\<lambda>m. \<not> (room_id m = r \<and> msg_id m = i)) tbl)
          else Inl (ClientError condition_failed))"

section \<open>The handlers\<close>

text \<open>\<^verbatim>\<open>jsonify(item)\<close> for the dictionary that \<^verbatim>\<open>create_message\<close> builds.\<close>

definition jsonify_item :: "message \<Rightarrow> json" where
  "jsonify_item m =
     JObj [(''room_id'', JStr (room_id m)), (''msg_id'', JStr (msg_id m)), (''ts'', JInt (ts m)),
           (''user'', JStr (user m)), (''text'', JStr (text m))]"

text \<open>
  \<^verbatim>\<open>request.get_json(force=True, silent=True)\<close>: the parsed body, or \<^verbatim>\<open>None\<close> when there
  is no body or it does not parse. The request body is \<open>None\<close> in that case.
\<close>

definition get_json :: "json option \<Rightarrow> json" where
  "get_json b = (case b of None \<Rightarrow> JNull | Some j \<Rightarrow> j)"

text \<open>\<^verbatim>\<open>payload.get(key, default)\<close>; only a \<^verbatim>\<open>dict\<close> has the method.\<close>

fun dict_get :: "json \<Rightarrow> string \<Rightarrow> json \<Rightarrow> exn + json" where
  "dict_get (JObj kvs) k d = Inr (case map_of kvs k of None \<Rightarrow> d | Some v \<Rightarrow> v)"
| "dict_get _ k d = Inl AttributeError"

text \<open>
  \<^verbatim>\<open>list_messages(room_id)\<close>, with the value of the query parameter \<^verbatim>\<open>limit\<close>
  (\<open>None\<close> when the request has none). Every handler takes the table and returns it.
\<close>

definition list_messages ::
  "table \<Rightarrow> client_error option \<Rightarrow> string \<Rightarrow> string option \<Rightarrow> (exn + response) \<times> table" where
  "list_messages tbl fault room limit =
     (case py_int (case limit of None \<Rightarrow> ''50'' | Some s \<Rightarrow> s) of
        None \<Rightarrow> (Inl ValueError, tbl)
      | Some n \<Rightarrow>
          (case query tbl fault room n of
             Inr items \<Rightarrow> (Inr (Json (JArr (map jsonify_item items)), 200), tbl)
           | Inl (ClientError e) \<Rightarrow> (Inl (HTTPException 500 (Message e)), tbl)
           | Inl x \<Rightarrow> (Inl x, tbl)))"

text \<open>
  The first three lines of \<^verbatim>\<open>create_message\<close>: the payload (the parsed body, or the
  empty dictionary when that is falsy), and the two fields read from it.
\<close>

definition payload_of :: "json option \<Rightarrow> json" where
  "payload_of b = (if truthy (get_json b) then get_json b else JObj [])"

definition user_of :: "json \<Rightarrow> exn + string" where
  "user_of payload =
     (case dict_get payload ''user'' (JStr ''anonymous'') of
        Inl x \<Rightarrow> Inl x
      | Inr v \<Rightarrow> Inr (take 64 (py_str v)))"

definition text_of :: "json \<Rightarrow> exn + string" where
  "text_of payload =
     (case dict_get payload ''text'' (JStr []) of
        Inl x \<Rightarrow> Inl x
      | Inr v \<Rightarrow> Inr (take 4096 (py_str v)))"

text \<open>
  \<^verbatim>\<open>create_message(room_id)\<close>; \<open>new_ulid\<close> is the value of \<^verbatim>\<open>str(ulid.new())\<close> and
  \<open>now\<close> the value of \<^verbatim>\<open>int(time.time() * 1000)\<close> in this request.
\<close>

definition create_message ::
  "table \<Rightarrow> client_error option \<Rightarrow> string \<Rightarrow> int \<Rightarrow> string \<Rightarrow> json option
     \<Rightarrow> (exn + response) \<times> table" where
  "create_message tbl fault new_ulid now room b =
     (case user_of (payload_of b) of
        Inl x \<Rightarrow> (Inl x, tbl)
      | Inr usr \<Rightarrow>
     (case text_of (payload_of b) of
        Inl x \<Rightarrow> (Inl x, tbl)
      | Inr txt \<Rightarrow>
          if txt = [] then (Inl (HTTPException 400 ''text is required''), tbl)
          else
           (let item = \<lparr>room_id = room, msg_id = new_ulid, ts = now, user = usr, text = txt\<rparr> in
            case put_item tbl fault item of
              Inr tbl' \<Rightarrow> (Inr (Json (jsonify_item item), 201), tbl')
            | Inl (ClientError e) \<Rightarrow> (Inl (HTTPException 500 (Message e)), tbl)
            | Inl x \<Rightarrow> (Inl x, tbl))))"

text \<open>\<^verbatim>\<open>delete_message(room_id, msg_id)\<close>.\<close>

definition delete_message ::
  "table \<Rightarrow> client_error option \<Rightarrow> string \<Rightarrow> string \<Rightarrow> (exn + response) \<times> table" where
  "delete_message tbl fault room i =
     (case delete_item tbl fault room i of
        Inr tbl' \<Rightarrow> (Inr (Plain '''', 204), tbl')
      | Inl (ClientError e) \<Rightarrow>
          if Code e = ''ConditionalCheckFailedException''
          then (Inl (HTTPException 404 ''message not found''), tbl)
          else (Inl (HTTPException 500 (Message e)), tbl)
      | Inl x \<Rightarrow> (Inl x, tbl))"

text \<open>
  The dictionary \<^verbatim>\<open>item\<close> that \<^verbatim>\<open>create_message\<close> builds when the payload is a
  dictionary with the items \<open>kvs\<close>.
\<close>

definition new_item :: "string \<Rightarrow> int \<Rightarrow> string \<Rightarrow> (string \<times> json) list \<Rightarrow> message" where
  "new_item u now room kvs =
     \<lparr>room_id = room, msg_id = u, ts = now,
      user = take 64 (py_str (case map_of kvs ''user'' of None \<Rightarrow> JStr ''anonymous'' | Some v \<Rightarrow> v)),
      text = take 4096 (py_str (case map_of kvs ''text'' of None \<Rightarrow> JStr [] | Some v \<Rightarrow> v))\<rparr>"

section \<open>Keys of the table\<close>

lemma has_key_iff: "has_key tbl r i \<longleftrightarrow> (\<exists>m\<in>set tbl. room_id m = r \<and> msg_id m = i)"
  by (simp add: has_key_def list_ex_iff)

lemma filter_no_key:
  "\<not> has_key tbl r i \<Longrightarrow> filter (\<lambda>m. \<not> (room_id m = r \<and> msg_id m = i)) tbl = tbl"
  by (induction tbl) (auto simp: has_key_iff)

section \<open>Normalisation of the create request\<close>

lemma text_of_Inr_obj: "text_of p = Inr t \<Longrightarrow> \<exists>kvs. p = JObj kvs"
  by (cases p) (simp_all add: text_of_def)

lemma user_of_obj:
  "user_of (JObj kvs) =
     Inr (take 64 (py_str (case map_of kvs ''user'' of None \<Rightarrow> JStr ''anonymous'' | Some v \<Rightarrow> v)))"
  by (simp add: user_of_def)

lemma text_of_obj:
  "text_of (JObj kvs) =
     Inr (take 4096 (py_str (case map_of kvs ''text'' of None \<Rightarrow> JStr [] | Some v \<Rightarrow> v)))"
  by (simp add: text_of_def)

lemma payload_of_falsy: "\<not> truthy v \<Longrightarrow> payload_of (Some v) = JObj []"
  by (simp add: payload_of_def get_json_def)

lemma payload_of_None: "payload_of None = JObj []"
  by (simp add: payload_of_def get_json_def)

lemma payload_of_truthy: "truthy v \<Longrightarrow> payload_of (Some v) = v"
  by (simp add: payload_of_def get_json_def)

lemma create_message_empty_payload:
  "payload_of b = JObj [] \<Longrightarrow>
   create_message tbl fault u now room b = (Inl (HTTPException 400 ''text is required''), tbl)"
  by (simp add: create_message_def user_of_obj text_of_obj)

lemma create_message_obj:
  "payload_of b = JObj kvs \<Longrightarrow>
   create_message tbl fault u now room b =
     (if text (new_item u now room kvs) = [] then (Inl (HTTPException 400 ''text is required''), tbl)
      else case fault of
        Some e \<Rightarrow> (Inl (HTTPException 500 (Message e)), tbl)
      | None \<Rightarrow>
          if has_key tbl room u
          then (Inl (HTTPException 500 ''The conditional request failed''), tbl)
          else (Inr (Json (jsonify_item (new_item u now room kvs)), 201),
                tbl @ [new_item u now room kvs]))"
  by (simp add: create_message_def user_of_obj text_of_obj new_item_def put_item_def
      condition_failed_def Let_def split: option.splits)

lemma create_message_not_obj:
  "\<forall>kvs. payload_of b \<noteq> JObj kvs \<Longrightarrow>
   create_message tbl fault u now room b = (Inl AttributeError, tbl)"
  by (cases "payload_of b") (simp_all add: create_message_def user_of_def)

lemma create_message_Inr:
  assumes "create_message tbl fault u now room b = (Inr resp, tbl')"
  shows "\<exists>kvs. payload_of b = JObj kvs \<and> text (new_item u now room kvs) \<noteq> [] \<and> fault = None
           \<and> \<not> has_key tbl room u
           \<and> resp = (Json (jsonify_item (new_item u now room kvs)), 201)
           \<and> tbl' = tbl @ [new_item u now room kvs]"
proof (cases "\<exists>kvs. payload_of b = JObj kvs")
  case True
  then obtain kvs where p: "payload_of b = JObj kvs" by blast
  from assms show ?thesis
    unfolding create_message_obj [OF p]
    by (auto simp: p split: if_splits option.splits)
next
  case False
  then have "create_message tbl fault u now room b = (Inl AttributeError, tbl)"
    by (simp add: create_message_not_obj)
  with assms show ?thesis by simp
qed

lemma create_message_table:
  "snd (create_message tbl fault u now room b) = tbl
   \<or> (\<exists>kvs. payload_of b = JObj kvs
        \<and> snd (create_message tbl fault u now room b) = tbl @ [new_item u now room kvs])"
proof (cases "\<exists>kvs. payload_of b = JObj kvs")
  case True
  then obtain kvs where p: "payload_of b = JObj kvs" by blast
  show ?thesis
    unfolding create_message_obj [OF p]
    by (auto simp: p split: option.splits)
next
  case False
  then show ?thesis by (simp add: create_message_not_obj)
qed

lemmas handler_eval =
  create_message_def list_messages_def delete_message_def payload_of_def get_json_def
  user_of_def text_of_def put_item_def delete_item_def query_def has_key_def
  condition_failed_def jsonify_item_def py_int_def strip_def is_space_def is_digit_def
  digit_val_def

text \<open>
  Claim C4. A create request whose normalised text is empty is rejected with
  \<^verbatim>\<open>abort(400, "text is required")\<close>, and the table is returned as it was: no write is
  attempted, whatever the backend would have answered.
\<close>

theorem create_empty_text_rejected:
  assumes "text_of (payload_of b) = Inr []"
  shows "create_message tbl fault u now room b =
           (Inl (HTTPException 400 ''text is required''), tbl)"
proof -
  from assms obtain kvs where p: "payload_of b = JObj kvs"
    using text_of_Inr_obj by blast
  with assms show ?thesis
    by (simp add: create_message_def user_of_obj)
qed

theorem create_empty_text_rejected_witness:
  "text_of (payload_of (Some (JObj [(''user'', JStr ''alice''), (''text'', JStr [])]))) = Inr []
   \<and> create_message [\<lparr>room_id = ''lobby'', msg_id = ''01A'', ts = 1, user = ''bob'', text = ''hi''\<rparr>]
        None ''01B'' 2 ''lobby'' (Some (JObj [(''user'', JStr ''alice''), (''text'', JStr [])]))
      = (Inl (HTTPException 400 ''text is required''),
         [\<lparr>room_id = ''lobby'', msg_id = ''01A'', ts = 1, user = ''bob'', text = ''hi''\<rparr>])"
proof -
  have h: "text_of (payload_of (Some (JObj [(''user'', JStr ''alice''), (''text'', JStr [])]))) = Inr []"
    by (simp add: payload_of_truthy text_of_obj)
  show ?thesis using h create_empty_text_rejected [OF h] by simp
qed

text \<open>
  Claim C9. A body that parses to a falsy JSON value (\<^verbatim>\<open>null\<close>, \<^verbatim>\<open>false\<close>, \<^verbatim>\<open>0\<close>, the
  empty string, the empty array) is handled as an absent body is: the payload is the empty
  dictionary, the request is rejected with 400 "text is required" and the table is
  unchanged.
\<close>

theorem create_falsy_body:
  assumes "v \<in> {JNull, JBool False, JInt 0, JStr [], JArr []}"
  shows "create_message tbl fault u now room (Some v) = create_message tbl fault u now room None
         \<and> create_message tbl fault u now room (Some v) =
             (Inl (HTTPException 400 ''text is required''), tbl)"
proof -
  from assms have "\<not> truthy v" by auto
  then have "payload_of (Some v) = JObj []" by (rule payload_of_falsy)
  then show ?thesis
    by (simp add: create_message_empty_payload payload_of_None)
qed

theorem create_falsy_body_witness:
  "JInt 0 \<in> {JNull, JBool False, JInt 0, JStr [], JArr []}
   \<and> create_message [] None ''01B'' 2 ''lobby'' (Some (JInt 0)) =
       create_message [] None ''01B'' 2 ''lobby'' None
   \<and> create_message [] None ''01B'' 2 ''lobby'' (Some (JInt 0)) =
       (Inl (HTTPException 400 ''text is required''), [])"
proof -
  have h: "JInt 0 \<in> {JNull, JBool False, JInt 0, JStr [], JArr []}" by simp
  from h create_falsy_body [OF h, of "[]" None "''01B''" 2 "''lobby''"] show ?thesis by blast
qed

text \<open>
  Claim C3. The create request is normalised first: an absent body gives the empty
  dictionary as payload and is handled as the body \<^verbatim>\<open>{}\<close> is; every record that
  \<^verbatim>\<open>create_message\<close> adds to the table has as \<open>user\<close> the first 64 characters of
  \<^verbatim>\<open>str\<close> of the payload's \<^verbatim>\<open>user\<close> (of \<^verbatim>\<open>"anonymous"\<close> when the key is absent) and
  as \<open>text\<close> the first 4096 characters of \<^verbatim>\<open>str\<close> of the payload's \<^verbatim>\<open>text\<close>, so
  the stored lengths are at most 64 and 4096.
\<close>

theorem create_normalises_input:
  "payload_of None = JObj []
   \<and> create_message tbl fault u now room None = create_message tbl fault u now room (Some (JObj []))
   \<and> (\<forall>m. m \<in> set (snd (create_message tbl fault u now room b)) \<and> m \<notin> set tbl \<longrightarrow>
         (\<exists>kvs. payload_of b = JObj kvs
            \<and> user m = take 64 (py_str (case map_of kvs ''user'' of
                                          None \<Rightarrow> JStr ''anonymous'' | Some v \<Rightarrow> v))
            \<and> text m = take 4096 (py_str (case map_of kvs ''text'' of
                                            None \<Rightarrow> JStr [] | Some v \<Rightarrow> v)))
         \<and> length (user m) \<le> 64 \<and> length (text m) \<le> 4096)"
proof (intro conjI allI impI)
  show "payload_of None = JObj []" by (rule payload_of_None)
next
  have "payload_of (Some (JObj [])) = JObj []" by (simp add: payload_of_falsy)
  then show "create_message tbl fault u now room None =
      create_message tbl fault u now room (Some (JObj []))"
    by (simp add: create_message_empty_payload payload_of_None)
next
  fix m
  assume m: "m \<in> set (snd (create_message tbl fault u now room b)) \<and> m \<notin> set tbl"
  with create_message_table [of tbl fault u now room b]
  obtain kvs where p: "payload_of b = JObj kvs" and eq: "m = new_item u now room kvs"
    by auto
  show "\<exists>kvs. payload_of b = JObj kvs
            \<and> user m = take 64 (py_str (case map_of kvs ''user'' of
                                          None \<Rightarrow> JStr ''anonymous'' | Some v \<Rightarrow> v))
            \<and> text m = take 4096 (py_str (case map_of kvs ''text'' of
                                            None \<Rightarrow> JStr [] | Some v \<Rightarrow> v))"
    using p eq by (auto simp: new_item_def)
  show "length (user m) \<le> 64" using eq by (simp add: new_item_def)
  show "length (text m) \<le> 4096" using eq by (simp add: new_item_def)
qed

theorem create_normalises_input_witness:
  "\<lparr>room_id = ''lobby'', msg_id = ''01B'', ts = 2, user = replicate 64 (CHR ''a''), text = ''hi''\<rparr>
     \<in> set (snd (create_message [] None ''01B'' 2 ''lobby''
          (Some (JObj [(''user'', JStr (replicate 70 (CHR ''a''))), (''text'', JStr ''hi'')]))))
   \<and> \<lparr>room_id = ''lobby'', msg_id = ''01B'', ts = 2, user = replicate 64 (CHR ''a''), text = ''hi''\<rparr>
     \<notin> set []
   \<and> length (user \<lparr>room_id = ''lobby'', msg_id = ''01B'', ts = 2, user = replicate 64 (CHR ''a''),
                   text = ''hi''\<rparr>) \<le> 64
   \<and> length (text \<lparr>room_id = ''lobby'', msg_id = ''01B'', ts = 2, user = replicate 64 (CHR ''a''),
                   text = ''hi''\<rparr>) \<le> 4096"
proof -
  let ?m = "\<lparr>room_id = ''lobby'', msg_id = ''01B'', ts = 2, user = replicate 64 (CHR ''a''),
             text = ''hi''\<rparr>"
  let ?b = "Some (JObj [(''user'', JStr (replicate 70 (CHR ''a''))), (''text'', JStr ''hi'')])"
  have h: "?m \<in> set (snd (create_message [] None ''01B'' 2 ''lobby'' ?b)) \<and> ?m \<notin> set []"
    by (simp add: handler_eval)
  from create_normalises_input [of "[]" None "''01B''" 2 "''lobby''" ?b] h
  have "length (user ?m) \<le> 64 \<and> length (text ?m) \<le> 4096" by blast
  with h show ?thesis by blast
qed

text \<open>
  Claim C10. When the body is a dictionary whose key \<^verbatim>\<open>user\<close> holds \<^verbatim>\<open>null\<close>, a
  successful create stores the user \<^verbatim>\<open>"None"\<close>; \<^verbatim>\<open>"anonymous"\<close> is stored when the
  key is absent, and any present value is stored as the first 64 characters of its
  \<^verbatim>\<open>str\<close>.
\<close>

theorem create_user_null:
  assumes "create_message tbl fault u now room (Some (JObj kvs)) = (Inr resp, tbl')"
  shows "\<exists>m. tbl' = tbl @ [m] \<and> resp = (Json (jsonify_item m), 201)
           \<and> (map_of kvs ''user'' = Some JNull \<longrightarrow> user m = ''None'')
           \<and> (map_of kvs ''user'' = None \<longrightarrow> user m = ''anonymous'')
           \<and> (\<forall>v. map_of kvs ''user'' = Some v \<longrightarrow> user m = take 64 (py_str v))"
proof -
  have p: "payload_of (Some (JObj kvs)) = JObj kvs"
    by (cases kvs) (simp_all add: payload_of_def get_json_def)
  from create_message_Inr [OF assms] p
  have "resp = (Json (jsonify_item (new_item u now room kvs)), 201)"
    and "tbl' = tbl @ [new_item u now room kvs]"
    by auto
  then show ?thesis
    by (intro exI [of _ "new_item u now room kvs"]) (simp add: new_item_def)
qed

theorem create_user_null_witness:
  "create_message [] None ''01B'' 2 ''lobby'' (Some (JObj [(''user'', JNull), (''text'', JStr ''hi'')]))
     = (Inr (Json (jsonify_item
          \<lparr>room_id = ''lobby'', msg_id = ''01B'', ts = 2, user = ''None'', text = ''hi''\<rparr>), 201),
        [\<lparr>room_id = ''lobby'', msg_id = ''01B'', ts = 2, user = ''None'', text = ''hi''\<rparr>])
   \<and> (\<exists>m. [\<lparr>room_id = ''lobby'', msg_id = ''01B'', ts = 2, user = ''None'', text = ''hi''\<rparr>] = [] @ [m]
          \<and> user m = ''None'')"
proof -
  let ?kvs = "[(''user'', JNull), (''text'', JStr ''hi'')]"
  have h: "create_message [] None ''01B'' 2 ''lobby'' (Some (JObj ?kvs))
     = (Inr (Json (jsonify_item
          \<lparr>room_id = ''lobby'', msg_id = ''01B'', ts = 2, user = ''None'', text = ''hi''\<rparr>), 201),
        [\<lparr>room_id = ''lobby'', msg_id = ''01B'', ts = 2, user = ''None'', text = ''hi''\<rparr>])"
    by (simp add: handler_eval)
  have k: "map_of ?kvs ''user'' = Some JNull" by simp
  from create_user_null [OF h] k h show ?thesis by blast
qed



section \<open>Deleting\<close>

lemma delete_message_found:
  "has_key tbl room i \<Longrightarrow>
   delete_message tbl None room i =
     (Inr (Plain [], 204), filter (\<lambda>m. \<not> (room_id m = room \<and> msg_id m = i)) tbl)"
  by (simp add: delete_message_def delete_item_def)

lemma delete_message_missing:
  "\<not> has_key tbl room i \<Longrightarrow>
   delete_message tbl None room i = (Inl (HTTPException 404 ''message not found''), tbl)"
  by (simp add: delete_message_def delete_item_def condition_failed_def)

lemma delete_message_fault:
  "delete_message tbl (Some e) room i =
     (if Code e = ''ConditionalCheckFailedException''
      then (Inl (HTTPException 404 ''message not found''), tbl)
      else (Inl (HTTPException 500 (Message e)), tbl))"
  by (simp add: delete_message_def delete_item_def)

text \<open>
  Claim C2. When the backend reports no other failure, deleting an existing record
  removes it and returns an empty body with status 204, and deleting a record that does
  not exist aborts with 404 "message not found"; a backend error with any other code
  aborts with 500 and the backend's message. After a successful create, deleting the
  created pair succeeds and gives back the table as it was before the create, so that a
  second delete of the same pair aborts with 404.
\<close>

theorem delete_message_outcomes:
  "(has_key tbl room i \<longrightarrow>
      delete_message tbl None room i =
        (Inr (Plain [], 204), filter (\<lambda>m. \<not> (room_id m = room \<and> msg_id m = i)) tbl)
      \<and> \<not> has_key (snd (delete_message tbl None room i)) room i)
   \<and> (\<not> has_key tbl room i \<longrightarrow>
      delete_message tbl None room i = (Inl (HTTPException 404 ''message not found''), tbl))
   \<and> (Code e \<noteq> ''ConditionalCheckFailedException'' \<longrightarrow>
      delete_message tbl (Some e) room i = (Inl (HTTPException 500 (Message e)), tbl))
   \<and> (create_message tbl fault u now room b = (Inr resp, tbl1) \<longrightarrow>
      delete_message tbl1 None room u = (Inr (Plain [], 204), tbl)
      \<and> delete_message tbl None room u = (Inl (HTTPException 404 ''message not found''), tbl))"
proof (intro conjI impI)
  assume "has_key tbl room i"
  then show "delete_message tbl None room i =
        (Inr (Plain [], 204), filter (\<lambda>m. \<not> (room_id m = room \<and> msg_id m = i)) tbl)"
    by (rule delete_message_found)
  then show "\<not> has_key (snd (delete_message tbl None room i)) room i"
    by (simp add: has_key_iff)
next
  assume "\<not> has_key tbl room i"
  then show "delete_message tbl None room i = (Inl (HTTPException 404 ''message not found''), tbl)"
    by (rule delete_message_missing)
next
  assume "Code e \<noteq> ''ConditionalCheckFailedException''"
  then show "delete_message tbl (Some e) room i = (Inl (HTTPException 500 (Message e)), tbl)"
    by (simp add: delete_message_fault)
next
  assume c: "create_message tbl fault u now room b = (Inr resp, tbl1)"
  from create_message_Inr [OF c] obtain kvs where
    k: "\<not> has_key tbl room u" and s: "tbl1 = tbl @ [new_item u now room kvs]"
    by blast
  have h: "has_key tbl1 room u" by (simp add: s has_key_iff new_item_def)
  have "filter (\<lambda>m. \<not> (room_id m = room \<and> msg_id m = u)) tbl1 = tbl"
    using filter_no_key [OF k] by (simp add: s new_item_def)
  with delete_message_found [OF h]
  show "delete_message tbl1 None room u = (Inr (Plain [], 204), tbl)" by simp
  show "delete_message tbl None room u = (Inl (HTTPException 404 ''message not found''), tbl)"
    using k by (rule delete_message_missing)
qed

theorem delete_message_outcomes_witness:
  "(has_key [\<lparr>room_id = ''lobby'', msg_id = ''01A'', ts = 1, user = ''bob'', text = ''yo''\<rparr>]
      ''lobby'' ''01A''
    \<and> delete_message [\<lparr>room_id = ''lobby'', msg_id = ''01A'', ts = 1, user = ''bob'', text = ''yo''\<rparr>]
        None ''lobby'' ''01A'' = (Inr (Plain [], 204), []))
   \<and> (\<not> has_key [\<lparr>room_id = ''lobby'', msg_id = ''01A'', ts = 1, user = ''bob'', text = ''yo''\<rparr>]
        ''lobby'' ''unknown-id''
    \<and> delete_message [\<lparr>room_id = ''lobby'', msg_id = ''01A'', ts = 1, user = ''bob'', text = ''yo''\<rparr>]
        None ''lobby'' ''unknown-id''
      = (Inl (HTTPException 404 ''message not found''),
         [\<lparr>room_id = ''lobby'', msg_id = ''01A'', ts = 1, user = ''bob'', text = ''yo''\<rparr>]))
   \<and> (Code \<lparr>Code = ''ThrottlingException'', Message = ''Rate exceeded''\<rparr>
        \<noteq> ''ConditionalCheckFailedException''
    \<and> delete_message [\<lparr>room_id = ''lobby'', msg_id = ''01A'', ts = 1, user = ''bob'', text = ''yo''\<rparr>]
        (Some \<lparr>Code = ''ThrottlingException'', Message = ''Rate exceeded''\<rparr>) ''lobby'' ''01A''
      = (Inl (HTTPException 500 ''Rate exceeded''),
         [\<lparr>room_id = ''lobby'', msg_id = ''01A'', ts = 1, user = ''bob'', text = ''yo''\<rparr>]))
   \<and> (create_message [\<lparr>room_id = ''lobby'', msg_id = ''01A'', ts = 1, user = ''bob'', text = ''yo''\<rparr>]
        None ''01B'' 2 ''lobby'' (Some (JObj [(''text'', JStr ''hi'')]))
      = (Inr (Json (jsonify_item
           \<lparr>room_id = ''lobby'', msg_id = ''01B'', ts = 2, user = ''anonymous'', text = ''hi''\<rparr>), 201),
         [\<lparr>room_id = ''lobby'', msg_id = ''01A'', ts = 1, user = ''bob'', text = ''yo''\<rparr>,
          \<lparr>room_id = ''lobby'', msg_id = ''01B'', ts = 2, user = ''anonymous'', text = ''hi''\<rparr>])
    \<and> delete_message
         [\<lparr>room_id = ''lobby'', msg_id = ''01A'', ts = 1, user = ''bob'', text = ''yo''\<rparr>,
          \<lparr>room_id = ''lobby'', msg_id = ''01B'', ts = 2, user = ''anonymous'', text = ''hi''\<rparr>]
         None ''lobby'' ''01B''
       = (Inr (Plain [], 204),
          [\<lparr>room_id = ''lobby'', msg_id = ''01A'', ts = 1, user = ''bob'', text = ''yo''\<rparr>])
    \<and> delete_message [\<lparr>room_id = ''lobby'', msg_id = ''01A'', ts = 1, user = ''bob'', text = ''yo''\<rparr>]
         None ''lobby'' ''01B''
       = (Inl (HTTPException 404 ''message not found''),
          [\<lparr>room_id = ''lobby'', msg_id = ''01A'', ts = 1, user = ''bob'', text = ''yo''\<rparr>]))"
proof -
  let ?m = "\<lparr>room_id = ''lobby'', msg_id = ''01A'', ts = 1, user = ''bob'', text = ''yo''\<rparr>"
  let ?n = "\<lparr>room_id = ''lobby'', msg_id = ''01B'', ts = 2, user = ''anonymous'', text = ''hi''\<rparr>"
  let ?e = "\<lparr>Code = ''ThrottlingException'', Message = ''Rate exceeded''\<rparr>"
  let ?b = "Some (JObj [(''text'', JStr ''hi'')])"
  have h1: "has_key [?m] ''lobby'' ''01A''" by (simp add: has_key_def)
  have h2: "\<not> has_key [?m] ''lobby'' ''unknown-id''" by (simp add: has_key_def)
  have h3: "Code ?e \<noteq> ''ConditionalCheckFailedException''" by simp
  have h4: "create_message [?m] None ''01B'' 2 ''lobby'' ?b = (Inr (Json (jsonify_item ?n), 201), [?m, ?n])"
    by (simp add: handler_eval)
  note a = delete_message_outcomes [of "[?m]" "''lobby''" "''01A''" ?e None "''01B''" 2 ?b
      "(Json (jsonify_item ?n), 201)" "[?m, ?n]"]
  note b = delete_message_outcomes [of "[?m]" "''lobby''" "''unknown-id''" ?e None "''01B''" 2 ?b
      "(Json (jsonify_item ?n), 201)" "[?m, ?n]"]
  have c1: "delete_message [?m] None ''lobby'' ''01A'' = (Inr (Plain [], 204), [])"
    using a h1 by simp
  have c2: "delete_message [?m] None ''lobby'' ''unknown-id''
      = (Inl (HTTPException 404 ''message not found''), [?m])"
    using b h2 by blast
  have c3: "delete_message [?m] (Some ?e) ''lobby'' ''01A'' = (Inl (HTTPException 500 ''Rate exceeded''), [?m])"
    using a h3 by simp
  have c4: "delete_message [?m, ?n] None ''lobby'' ''01B'' = (Inr (Plain [], 204), [?m])
    \<and> delete_message [?m] None ''lobby'' ''01B'' = (Inl (HTTPException 404 ''message not found''), [?m])"
    using a h4 by blast
  from h1 h2 h3 h4 c1 c2 c3 c4 show ?thesis by blast
qed

section \<open>Reading the limit\<close>












section \<open>Listing\<close>


lemma list_messages_partition:
  "filter (\<lambda>m. room_id m = r) t1 = filter (\<lambda>m. room_id m = r) t2 \<Longrightarrow>
   fst (list_messages t1 f r l) = fst (list_messages t2 f r l)"
  by (simp add: list_messages_def query_def split: option.splits sum.splits exn.splits)


lemma query_Inr:
  "query tbl f r n = Inr ms \<Longrightarrow> set ms \<subseteq> {m \<in> set tbl. room_id m = r}"
  by (auto simp: query_def split: option.splits if_splits dest: in_set_takeD)

lemma list_messages_Inr:
  assumes "fst (list_messages tbl f r l) = Inr resp"
  shows "\<exists>ms. resp = (Json (JArr (map jsonify_item ms)), 200)
           \<and> set ms \<subseteq> {m \<in> set tbl. room_id m = r}"
proof -
  from assms obtain n ms where q: "query tbl f r n = Inr ms"
    and r: "resp = (Json (JArr (map jsonify_item ms)), 200)"
    by (auto simp: list_messages_def split: option.splits sum.splits exn.splits)
  from query_Inr [OF q] r show ?thesis by blast
qed

lemma jsonify_item_room: "jsonify_item m = jsonify_item m' \<Longrightarrow> room_id m = room_id m'"
  by (simp add: jsonify_item_def)







text \<open>
  Claim C7. For two different rooms \<open>ra\<close> and \<open>rb\<close>: a create request on \<open>ra\<close>
  leaves the partition of \<open>rb\<close> as it was, so listing \<open>rb\<close> answers the same before
  and after it; and over any table, no record whose room is \<open>ra\<close> is in the array that
  listing \<open>rb\<close> returns.
\<close>

theorem rooms_isolated:
  assumes "ra \<noteq> rb"
  shows "filter (\<lambda>m. room_id m = rb) (snd (create_message tbl fault u now ra b)) =
           filter (\<lambda>m. room_id m = rb) tbl
         \<and> fst (list_messages (snd (create_message tbl fault u now ra b)) f rb limit) =
           fst (list_messages tbl f rb limit)
         \<and> (\<forall>t js st m. fst (list_messages t f rb limit) = Inr (Json (JArr js), st)
              \<and> room_id m = ra \<longrightarrow> jsonify_item m \<notin> set js)"
proof (intro conjI allI impI)
  show p: "filter (\<lambda>m. room_id m = rb) (snd (create_message tbl fault u now ra b)) =
           filter (\<lambda>m. room_id m = rb) tbl"
    using create_message_table [of tbl fault u now ra b] assms
    by (auto simp: new_item_def)
  then show "fst (list_messages (snd (create_message tbl fault u now ra b)) f rb limit) =
           fst (list_messages tbl f rb limit)"
    by (rule list_messages_partition)
next
  fix t js st and m :: message
  assume a: "fst (list_messages t f rb limit) = Inr (Json (JArr js), st) \<and> room_id m = ra"
  with list_messages_Inr [of t f rb limit "(Json (JArr js), st)"]
  obtain ms where js: "js = map jsonify_item ms" and ms: "set ms \<subseteq> {m \<in> set t. room_id m = rb}"
    by auto
  show "jsonify_item m \<notin> set js"
  proof
    assume "jsonify_item m \<in> set js"
    then obtain m' where "m' \<in> set ms" and "jsonify_item m = jsonify_item m'"
      using js by auto
    with ms a assms show False
      by (auto dest: jsonify_item_room)
  qed
qed

theorem rooms_isolated_witness:
  "''attic'' \<noteq> ''lobby''
   \<and> fst (list_messages (snd (create_message
        [\<lparr>room_id = ''lobby'', msg_id = ''01A'', ts = 1, user = ''amy'', text = ''one''\<rparr>]
        None ''01B'' 2 ''attic'' (Some (JObj [(''text'', JStr ''hi'')])))) None ''lobby'' None)
     = fst (list_messages
        [\<lparr>room_id = ''lobby'', msg_id = ''01A'', ts = 1, user = ''amy'', text = ''one''\<rparr>]
        None ''lobby'' None)
   \<and> fst (list_messages
        [\<lparr>room_id = ''lobby'', msg_id = ''01A'', ts = 1, user = ''amy'', text = ''one''\<rparr>,
         \<lparr>room_id = ''attic'', msg_id = ''01B'', ts = 2, user = ''anonymous'', text = ''hi''\<rparr>]
        None ''lobby'' None)
     = Inr (Json (JArr [jsonify_item
          \<lparr>room_id = ''lobby'', msg_id = ''01A'', ts = 1, user = ''amy'', text = ''one''\<rparr>]), 200)
   \<and> room_id \<lparr>room_id = ''attic'', msg_id = ''01B'', ts = 2, user = ''anonymous'', text = ''hi''\<rparr>
       = ''attic''
   \<and> jsonify_item \<lparr>room_id = ''attic'', msg_id = ''01B'', ts = 2, user = ''anonymous'', text = ''hi''\<rparr>
       \<notin> set [jsonify_item
          \<lparr>room_id = ''lobby'', msg_id = ''01A'', ts = 1, user = ''amy'', text = ''one''\<rparr>]"
proof -
  let ?a = "\<lparr>room_id = ''lobby'', msg_id = ''01A'', ts = 1, user = ''amy'', text = ''one''\<rparr>"
  let ?n = "\<lparr>room_id = ''attic'', msg_id = ''01B'', ts = 2, user = ''anonymous'', text = ''hi''\<rparr>"
  let ?b = "Some (JObj [(''text'', JStr ''hi'')])"
  have h1: "''attic'' \<noteq> ''lobby''" by simp
  have h2: "fst (list_messages [?a, ?n] None ''lobby'' None)
      = Inr (Json (JArr [jsonify_item ?a]), 200) \<and> room_id ?n = ''attic''"
    by (simp add: handler_eval)
  note r = rooms_isolated [OF h1, of "[?a]" None "''01B''" 2 ?b None None]
  from r have c1: "fst (list_messages (snd (create_message [?a] None ''01B'' 2 ''attic'' ?b))
      None ''lobby'' None) = fst (list_messages [?a] None ''lobby'' None)"
    by blast
  from r h2 have c2: "jsonify_item ?n \<notin> set [jsonify_item ?a]"
    by blast
  from h1 h2 c1 c2 show ?thesis by blast
qed




end
